theory Spec2Isabelle
  imports Main "HOL-Library.Word"
begin

section \<open>Event timing and CPU-time sampling of gcTraceTime.cpp\<close>

text \<open>
  The file \<^verbatim>\<open>src/hotspot/share/gc/shared/gcTraceTime.cpp\<close> holds four functions:
  \<^verbatim>\<open>GCTraceTimeLoggerImpl::log_start\<close>, \<^verbatim>\<open>GCTraceTimeLoggerImpl::log_end\<close>, the constructor
  and the destructor of \<^verbatim>\<open>GCTraceCPUTime\<close>. Each is embedded as a function from the object's
  fields and the answers of the outside world (heap accessor, system calls, allocator,
  OS clock) to the new fields, the text written to the log and the list of external
  calls made, in the order the code makes them.

  Sizes are those of the LP64 Linux target the two private system calls (452 and 455)
  belong to: \<^verbatim>\<open>size_t\<close> and \<^verbatim>\<open>unsigned long\<close> are 64-bit words, \<^verbatim>\<open>unsigned int\<close> is a
  32-bit word, a tick value is a 64-bit \<^verbatim>\<open>jlong\<close>.
\<close>

subsection \<open>Platform: what the code uses and the file does not define\<close>

text \<open>
  \<^verbatim>\<open>double\<close> is the type variable \<open>'d\<close>; the code subtracts doubles and starts them at
  \<^verbatim>\<open>0.0\<close>, so \<open>'d\<close> is of class \<open>{zero, minus}\<close> where that happens.
  \<^verbatim>\<open>GCCause::Cause\<close> is the type variable \<open>'c\<close>. The record below collects the library
  functions the code calls on them.
  \<^item> \<open>no_gc\<close>: the enumerator \<^verbatim>\<open>GCCause::_no_gc\<close>;
  \<^item> \<open>GCCause_to_string\<close>: \<^verbatim>\<open>GCCause::to_string\<close>;
  \<^item> \<open>counter_to_millis\<close>: \<^verbatim>\<open>TimeHelper::counter_to_millis\<close>, from elapsed ticks to
    milliseconds;
  \<^item> \<open>format_f\<close>: the conversion \<^verbatim>\<open>%.Pf\<close> of \<^verbatim>\<open>printf\<close> at precision \<open>P\<close> (a double in
    fixed notation with \<open>P\<close> digits after the point), without field width.
\<close>

record ('c, 'd) platform =
  no_gc :: 'c
  GCCause_to_string :: "'c \<Rightarrow> string"
  counter_to_millis :: "64 word \<Rightarrow> 'd"
  format_f :: "nat \<Rightarrow> 'd \<Rightarrow> string"

text \<open>A field width pads on the left with blanks: \<^verbatim>\<open>%W.Pf\<close> is \<^verbatim>\<open>%.Pf\<close> padded to \<open>W\<close>.\<close>

definition pad_left :: "nat \<Rightarrow> string \<Rightarrow> string" where
  "pad_left w s = replicate (w - length s) (CHR '' '') @ s"

definition printf_f :: "('c, 'd) platform \<Rightarrow> nat \<Rightarrow> nat \<Rightarrow> 'd \<Rightarrow> string" where
  "printf_f P w p x = pad_left w (format_f P p x)"

text \<open>
  Modelled from the spec: the macro \<^verbatim>\<open>SIZE_FORMAT\<close> (globalDefinitions.hpp) is missing from
  the sources at hand. The spec's scenario line \<^verbatim>\<open>100M->60M(512M) majflt(10->12)\<close> prints
  sizes and counts in decimal: most significant digit first, no sign, no leading zero.
  \<open>digit\<close> is only ever asked for a number below ten.
\<close>

definition digit :: "nat \<Rightarrow> char" where
  "digit d = ''0123456789'' ! d"

function decimal :: "nat \<Rightarrow> string" where
  "decimal n = (if n < 10 then [digit n] else decimal (n div 10) @ [digit (n mod 10)])"
  by pat_completeness auto
termination
  by (relation "measure (\<lambda>n. n)") auto

declare decimal.simps [simp del]

definition SIZE_FORMAT :: "64 word \<Rightarrow> string" where
  "SIZE_FORMAT v = decimal (unat v)"

text \<open>
  Modelled from the spec: the constant \<^verbatim>\<open>M\<close> (globalDefinitions.hpp) is missing from the
  sources at hand. The spec has the sizes "converted to the same coarse unit (megabytes)",
  which in the scenario are 100 for 100 MB: \<^verbatim>\<open>M\<close> is \<open>1024 * 1024\<close> bytes.
\<close>

definition M :: "64 word" where
  "M = 1024 * 1024"

text \<open>\<^verbatim>\<open>SIZE_MAX\<close> of the C library is the largest \<^verbatim>\<open>size_t\<close>, all bits set.\<close>

definition SIZE_MAX :: "64 word" where
  "SIZE_MAX = - 1"

text \<open>
  \<^verbatim>\<open>strstr(haystack, needle)\<close> of the C library: the part of the haystack that starts at the
  first occurrence of the needle, or a null pointer (\<open>None\<close>) when there is none.
\<close>

fun strstr :: "string \<Rightarrow> string \<Rightarrow> string option" where
  "strstr [] needle = (if needle = [] then Some [] else None)"
| "strstr (c # cs) needle =
     (if take (length needle) (c # cs) = needle then Some (c # cs) else strstr cs needle)"

subsection \<open>The log stream\<close>

text \<open>
  Modelled from the spec: \<^verbatim>\<open>LogStream\<close> (logging/logStream.hpp) is missing from the sources
  at hand. The spec calls the log sink "line-buffered, one flush per logical log
  statement": \<^verbatim>\<open>print\<close> appends to the current line, \<^verbatim>\<open>cr\<close> ends the line and hands it
  to the sink, \<^verbatim>\<open>print_cr\<close> does both. Both member functions end a line with their last
  print, so no unfinished line is left when the stream goes out of scope.
\<close>

record LogStream =
  logged :: "string list"
  current_line :: string

definition LogStream_new :: LogStream where
  "LogStream_new = \<lparr>logged = [], current_line = []\<rparr>"

definition print :: "LogStream \<Rightarrow> string \<Rightarrow> LogStream" where
  "print out s = out\<lparr>current_line := current_line out @ s\<rparr>"

definition cr :: "LogStream \<Rightarrow> LogStream" where
  "cr out = \<lparr>logged = logged out @ [current_line out], current_line = []\<rparr>"

definition print_cr :: "LogStream \<Rightarrow> string \<Rightarrow> LogStream" where
  "print_cr out s = cr (print out s)"

subsection \<open>The outside world of the event timer\<close>

text \<open>
  Every call that leaves the file is recorded with what it returned:
  \<^item> \<open>Heap_used u\<close>, \<open>Heap_capacity c\<close>: \<^verbatim>\<open>Universe::heap()->used()\<close> and \<^verbatim>\<open>->capacity()\<close>;
  \<^item> \<open>Get_swap_stats r\<close>: \<^verbatim>\<open>syscall(452, &stats)\<close>; \<open>r = Some m\<close> when it returned 0 and
    stored \<open>m\<close> in \<^verbatim>\<open>stats.majflt\<close>, \<open>None\<close> when it returned anything else;
  \<^item> \<open>Malloc n ok\<close>: \<^verbatim>\<open>malloc(n)\<close>, \<open>ok\<close> when the pointer is not null;
  \<^item> \<open>Faulty_page_index_query ok\<close>: \<^verbatim>\<open>syscall(455, 3, indices, 0)\<close>, \<open>ok\<close> when it
    returned 0;
  \<^item> \<open>Free\<close>: \<^verbatim>\<open>free(indices)\<close>;
  \<^item> \<open>Faulty_page_index_reset\<close>: \<^verbatim>\<open>syscall(455, 2, NULL, 0)\<close>, whose result the code drops.
\<close>

datatype ext_call =
    Heap_used "64 word"
  | Heap_capacity "64 word"
  | Get_swap_stats "32 word option"
  | Malloc nat bool
  | Faulty_page_index_query bool
  | Free
  | Faulty_page_index_reset

text \<open>What the world answers during \<^verbatim>\<open>log_start\<close> and during \<^verbatim>\<open>log_end\<close>.\<close>

record os_at_start =
  used_at_start :: "64 word"
  swap_stats_at_start :: "32 word option"

text \<open>
  \<open>page_indices\<close> is the answer to the query of system call 455: \<open>None\<close> when it fails,
  \<open>Some buf\<close> when it succeeds and the buffer then holds \<open>buf i\<close> at index \<open>i\<close>.
\<close>

record os_at_end =
  used_at_end :: "64 word"
  capacity_at_end :: "64 word"
  swap_stats_at_end :: "32 word option"
  malloc_ok :: bool
  page_indices :: "(nat \<Rightarrow> 64 word) option"

subsection \<open>GCTraceTimeLoggerImpl\<close>

text \<open>
  The fields the two functions read and write. The class is declared in gcTraceTime.hpp,
  which is missing from the sources at hand; \<^verbatim>\<open>_majflt_before\<close> is printed with
  \<^verbatim>\<open>SIZE_FORMAT\<close>, so it is a \<^verbatim>\<open>size_t\<close>, and the \<^verbatim>\<open>unsigned int\<close> read from the system
  call is widened with zeros when it is stored there. \<^verbatim>\<open>Ticks::value()\<close> is a \<^verbatim>\<open>jlong\<close>; the
  difference of two of them is taken in 64 bits.
\<close>

record 'c GCTraceTimeLoggerImpl =
  title :: string
  gc_cause :: 'c
  log_heap_usage :: bool
  start :: "64 word"
  heap_usage_before :: "64 word"
  majflt_before :: "64 word"

text \<open>
  Modelled from the spec: the constructor (gcTraceTime.inline.hpp) is missing from the
  sources at hand. The spec's data model has \<open>usage_before\<close> at "an explicit unset
  sentinel when usage tracking is disabled", which \<^verbatim>\<open>log_end\<close> tests as \<^verbatim>\<open>SIZE_MAX\<close>, and
  \<open>fault_count_before\<close> at "a default/uninitialized value", here the argument
  \<open>majflt_default\<close>. The start tick is zero until \<^verbatim>\<open>log_start\<close> stores one.
\<close>

definition GCTraceTimeLoggerImpl_new ::
  "string \<Rightarrow> 'c \<Rightarrow> bool \<Rightarrow> 64 word \<Rightarrow> 'c GCTraceTimeLoggerImpl" where
  "GCTraceTimeLoggerImpl_new ttl cause log_usage majflt_default =
     \<lparr>title = ttl, gc_cause = cause, log_heap_usage = log_usage, start = 0,
      heap_usage_before = SIZE_MAX, majflt_before = majflt_default\<rparr>"

text \<open>What a member function leaves behind: the object, the log stream, the calls.\<close>

record 'c outcome =
  self :: "'c GCTraceTimeLoggerImpl"
  log_out :: LogStream
  calls :: "ext_call list"

text \<open>\<^verbatim>\<open>GCTraceTimeLoggerImpl::log_start(Ticks start)\<close>, lines 37 to 57.\<close>

definition log_start ::
  "('c, 'd) platform \<Rightarrow> 'c GCTraceTimeLoggerImpl \<Rightarrow> 64 word \<Rightarrow> os_at_start \<Rightarrow> 'c outcome" where
  "log_start P this start_now os =
     (let this1 = this\<lparr>start := start_now\<rparr>;
          out0 = LogStream_new;
          out1 = print out0 (title this1);
          out2 = (if gc_cause this1 \<noteq> no_gc P
                  then print out1 ('' ('' @ GCCause_to_string P (gc_cause this1) @ '')'')
                  else out1);
          out3 = cr out2
      in if log_heap_usage this1
         then (let this2 = this1\<lparr>heap_usage_before := used_at_start os\<rparr>;
                   this3 = (case swap_stats_at_start os of
                              Some majflt \<Rightarrow> this2\<lparr>majflt_before := ucast majflt\<rparr>
                            | None \<Rightarrow> this2)
               in \<lparr>self = this3, log_out = out3,
                   calls = [Heap_used (used_at_start os), Get_swap_stats (swap_stats_at_start os)]\<rparr>)
         else \<lparr>self = this1, log_out = out3, calls = []\<rparr>)"

text \<open>
  The loop of lines 99 to 101: \<^verbatim>\<open>for (int i = 0; i < 2048; i++) out.print(SIZE_FORMAT ",",
  indices[i])\<close>.
\<close>

function print_indices :: "(nat \<Rightarrow> 64 word) \<Rightarrow> nat \<Rightarrow> LogStream \<Rightarrow> LogStream" where
  "print_indices indices i out =
     (if i < 2048
      then print_indices indices (Suc i) (print out (SIZE_FORMAT (indices i) @ '',''))
      else out)"
  by pat_completeness auto
termination
  by (relation "measure (\<lambda>(indices, i, out). 2048 - i)") auto

declare print_indices.simps [simp del]

text \<open>
  The block of lines 92 to 108, entered when \<^verbatim>\<open>_log_heap_usage\<close> holds and the title
  contains \<^verbatim>\<open>Pause Full\<close>: allocate 2048 \<^verbatim>\<open>unsigned long\<close>, query when the allocation
  succeeded, print when the query succeeded, free, and reset in every case.
\<close>

definition faulty_page_diagnostic :: "LogStream \<Rightarrow> os_at_end \<Rightarrow> LogStream \<times> ext_call list" where
  "faulty_page_diagnostic out os =
     (let c0 = [Malloc (2048 * 8) (malloc_ok os)];
          (out1, c1) =
            (if malloc_ok os
             then (case page_indices os of
                     Some indices \<Rightarrow>
                       (cr (print_indices indices 0 (print out ''faulty page index: '')),
                        c0 @ [Faulty_page_index_query True, Free])
                   | None \<Rightarrow> (out, c0 @ [Faulty_page_index_query False, Free]))
             else (out, c0))
      in (out1, c1 @ [Faulty_page_index_reset]))"

text \<open>\<^verbatim>\<open>GCTraceTimeLoggerImpl::log_end(Ticks end)\<close>, lines 59 to 109.\<close>

definition log_end ::
  "('c, 'd) platform \<Rightarrow> 'c GCTraceTimeLoggerImpl \<Rightarrow> 64 word \<Rightarrow> os_at_end \<Rightarrow> 'c outcome" where
  "log_end P this end_now os =
     (let duration_in_ms = counter_to_millis P (end_now - start this);
          out0 = LogStream_new;
          out1 = print out0 (title this);
          out2 = (if gc_cause this \<noteq> no_gc P
                  then print out1 ('' ('' @ GCCause_to_string P (gc_cause this) @ '')'')
                  else out1);
          (out3, c3) =
            (if heap_usage_before this \<noteq> SIZE_MAX
             then (let used_before_m = heap_usage_before this div M;
                       used_m = used_at_end os div M;
                       capacity_m = capacity_at_end os div M;
                       majflt = (case swap_stats_at_end os of
                                   Some m \<Rightarrow> ucast m
                                 | None \<Rightarrow> (- 1 :: 64 word))
                   in (print out2
                         ('' '' @ SIZE_FORMAT used_before_m @ ''M->'' @ SIZE_FORMAT used_m @ ''M(''
                          @ SIZE_FORMAT capacity_m @ ''M) '' @ ''majflt(''
                          @ SIZE_FORMAT (majflt_before this) @ ''->'' @ SIZE_FORMAT majflt @ '')''),
                       [Heap_used (used_at_end os), Heap_capacity (capacity_at_end os),
                        Get_swap_stats (swap_stats_at_end os)]))
             else (out2, []));
          out4 = print_cr out3 ('' '' @ printf_f P 0 3 duration_in_ms @ ''ms'')
      in if log_heap_usage this \<and> strstr (title this) ''Pause Full'' \<noteq> None
         then (let (out5, c5) = faulty_page_diagnostic out4 os
               in \<lparr>self = this, log_out = out5, calls = c3 @ c5\<rparr>)
         else \<lparr>self = this, log_out = out4, calls = c3\<rparr>)"

text \<open>Counting the calls of one kind in a list of calls.\<close>

definition is_get_swap_stats :: "ext_call \<Rightarrow> bool" where
  "is_get_swap_stats c = (case c of Get_swap_stats r \<Rightarrow> True | _ \<Rightarrow> False)"

definition is_query :: "ext_call \<Rightarrow> bool" where
  "is_query c = (case c of Faulty_page_index_query ok \<Rightarrow> True | _ \<Rightarrow> False)"

definition is_reset :: "ext_call \<Rightarrow> bool" where
  "is_reset c = (case c of Faulty_page_index_reset \<Rightarrow> True | _ \<Rightarrow> False)"

subsection \<open>GCTraceCPUTime\<close>

text \<open>
  The tracer is reached through a pointer that may be null (\<open>None\<close>). Of the tracer only
  the answer of \<^verbatim>\<open>should_report_cpu_time_event()\<close> matters to this file.
\<close>

datatype GCTracer = GCTracer (should_report_cpu_time_event: bool)

text \<open>
  The calls that leave the constructor and the destructor:
  \<^item> \<open>Should_report b\<close>: \<^verbatim>\<open>tracer->should_report_cpu_time_event()\<close> returned \<open>b\<close>;
  \<^item> \<open>GetTimesSecs r\<close>: \<^verbatim>\<open>os::getTimesSecs\<close>; \<open>Some (real, user, system)\<close> when it returned true
    and stored the three times, \<open>None\<close> when it returned false (what it may have stored
    then is never read: the constructor clears \<^verbatim>\<open>_active\<close>, the destructor drops its
    locals);
  \<^item> \<open>Log_warning s\<close>, \<open>Log_info s\<close>: the statements \<^verbatim>\<open>log_warning(gc, cpu)\<close> and
    \<^verbatim>\<open>log_info(gc, cpu)\<close> with the formatted text;
  \<^item> \<open>Report u s r\<close>: \<^verbatim>\<open>_tracer->report_cpu_time_event(u, s, r)\<close>.
\<close>

datatype 'd cpu_call =
    Should_report bool
  | GetTimesSecs "('d \<times> 'd \<times> 'd) option"
  | Log_warning string
  | Log_info string
  | Report 'd 'd 'd

definition is_should_report :: "'d cpu_call \<Rightarrow> bool" where
  "is_should_report c = (case c of Should_report b \<Rightarrow> True | _ \<Rightarrow> False)"

definition is_log_info :: "'d cpu_call \<Rightarrow> bool" where
  "is_log_info c = (case c of Log_info s \<Rightarrow> True | _ \<Rightarrow> False)"

record 'd GCTraceCPUTime =
  active :: bool
  starting_user_time :: 'd
  starting_system_time :: 'd
  starting_real_time :: 'd
  tracer :: "GCTracer option"

text \<open>
  \<^verbatim>\<open>GCTraceCPUTime::GCTraceCPUTime(GCTracer* tracer)\<close>, lines 111 to 128. \<open>log_enabled\<close> is the
  value of \<^verbatim>\<open>log_is_enabled(Info, gc, cpu)\<close>, \<open>secs\<close> the answer of the OS clock if it is
  asked. The operators \<^verbatim>\<open>||\<close> and \<^verbatim>\<open>&&\<close> of the initialiser evaluate their right operand
  only when the left one does not decide.
\<close>

definition GCTraceCPUTime_ctor ::
  "bool \<Rightarrow> GCTracer option \<Rightarrow> ('d \<times> 'd \<times> 'd) option
   \<Rightarrow> ('d::{zero, minus}) GCTraceCPUTime \<times> 'd cpu_call list" where
  "GCTraceCPUTime_ctor log_enabled trc secs =
     (let (active0, c0) =
            (if log_enabled then (True, [])
             else (case trc of
                     None \<Rightarrow> (False, [])
                   | Some t \<Rightarrow> (should_report_cpu_time_event t,
                                [Should_report (should_report_cpu_time_event t)])));
          this0 = \<lparr>active = active0, starting_user_time = 0, starting_system_time = 0,
                   starting_real_time = 0, tracer = trc\<rparr>
      in if active this0
         then (case secs of
                 Some (real_time, user_time, system_time) \<Rightarrow>
                   (this0\<lparr>starting_real_time := real_time, starting_user_time := user_time,
                          starting_system_time := system_time\<rparr>,
                    c0 @ [GetTimesSecs secs])
               | None \<Rightarrow>
                   (this0\<lparr>active := False\<rparr>,
                    c0 @ [GetTimesSecs None,
                          Log_warning ''TraceCPUTime: os::getTimesSecs() returned invalid result'']))
         else (this0, c0))"

text \<open>\<^verbatim>\<open>GCTraceCPUTime::~GCTraceCPUTime()\<close>, lines 130 to 146.\<close>

definition GCTraceCPUTime_dtor ::
  "('c, 'd) platform \<Rightarrow> ('d::{zero, minus}) GCTraceCPUTime \<Rightarrow> ('d \<times> 'd \<times> 'd) option
   \<Rightarrow> 'd cpu_call list" where
  "GCTraceCPUTime_dtor P this secs =
     (if active this
      then (case secs of
              Some (real_time, user_time, system_time) \<Rightarrow>
                (let user_time1 = user_time - starting_user_time this;
                     system_time1 = system_time - starting_system_time this;
                     real_time1 = real_time - starting_real_time this
                 in [GetTimesSecs secs,
                     Log_info (''User='' @ printf_f P 3 2 user_time1 @ ''s Sys=''
                               @ printf_f P 3 2 system_time1 @ ''s Real=''
                               @ printf_f P 3 2 real_time1 @ ''s'')]
                    @ (case tracer this of
                         Some t \<Rightarrow> [Report user_time1 system_time1 real_time1]
                       | None \<Rightarrow> []))
            | None \<Rightarrow>
                [GetTimesSecs None,
                 Log_warning ''TraceCPUTime: os::getTimesSecs() returned invalid result''])
      else [])"

subsection \<open>A concrete platform for evaluation\<close>

text \<open>
  An instance of the platform on which the functions can be run: causes are their names,
  a \<^verbatim>\<open>double\<close> is a whole number of millionths, a tick is a nanosecond, and the fixed
  notation cuts the digits after the \<open>p\<close>-th (\<open>p \<le> 6\<close>).
\<close>

definition zero_pad :: "nat \<Rightarrow> string \<Rightarrow> string" where
  "zero_pad w s = replicate (w - length s) (CHR ''0'') @ s"

definition fixed_format :: "nat \<Rightarrow> int \<Rightarrow> string" where
  "fixed_format p x =
     (let n = nat \<bar>x\<bar> div 10 ^ (6 - p)
      in (if x < 0 then ''-'' else '''') @ decimal (n div 10 ^ p) @ ''.''
         @ zero_pad p (decimal (n mod 10 ^ p)))"

definition fixed_platform :: "(string, int) platform" where
  "fixed_platform =
     \<lparr>no_gc = ''No GC'', GCCause_to_string = (\<lambda>c. c), counter_to_millis = sint,
      format_f = fixed_format\<rparr>"

section \<open>Properties\<close>

subsection \<open>Formatting\<close>

lemma printf_f_0: "printf_f P 0 p x = format_f P p x"
  by (simp add: printf_f_def pad_left_def)

lemma printf_f_wide: "w \<le> length (format_f P p x) \<Longrightarrow> printf_f P w p x = format_f P p x"
  by (simp add: printf_f_def pad_left_def)

lemma digit_cases:
  assumes "d < (10::nat)"
  shows "d = 0 \<or> d = 1 \<or> d = 2 \<or> d = 3 \<or> d = 4 \<or> d = 5 \<or> d = 6 \<or> d = 7 \<or> d = 8 \<or> d = 9"
  using assms by arith

lemma of_char_digit:
  assumes "d < 10"
  shows "of_char (digit d) = (48 + d :: nat)"
  using digit_cases [OF assms] by (elim disjE) (simp_all add: digit_def)

lemma digit_not_comma:
  assumes "d < 10"
  shows "digit d \<noteq> CHR '',''"
  using digit_cases [OF assms] by (elim disjE) (simp_all add: digit_def)

text \<open>Reading the digits back gives the number, so two numbers never print alike.\<close>

lemma foldl_decimal:
  "foldl (\<lambda>a c. 10 * a + (of_char c - 48)) (0::nat) (decimal n) = n"
proof (induction n rule: decimal.induct)
  case (1 n)
  show ?case
  proof (cases "n < 10")
    case True
    then show ?thesis
      by (subst decimal.simps) (simp add: of_char_digit)
  next
    case False
    have "n mod 10 < 10" by simp
    then have d: "of_char (digit (n mod 10)) = (48 + n mod 10 :: nat)"
      by (rule of_char_digit)
    from False 1 show ?thesis
      by (subst decimal.simps) (simp add: d)
  qed
qed

lemma decimal_inj: "decimal a = decimal b \<Longrightarrow> a = b"
  by (metis foldl_decimal)

lemma decimal_not_Nil: "decimal n \<noteq> []"
  by (subst decimal.simps) simp

lemma count_comma_decimal: "count_list (decimal n) (CHR '','') = 0"
proof (induction n rule: decimal.induct)
  case (1 n)
  show ?case
  proof (cases "n < 10")
    case True
    then show ?thesis
      by (subst decimal.simps) (simp add: digit_not_comma)
  next
    case False
    have "digit (n mod 10) \<noteq> CHR '',''"
      by (rule digit_not_comma) simp
    with False 1 show ?thesis
      by (subst decimal.simps) simp
  qed
qed

lemma SIZE_FORMAT_inj: "SIZE_FORMAT v = SIZE_FORMAT w \<Longrightarrow> v = w"
  by (simp add: SIZE_FORMAT_def word_unat_eq_iff decimal_inj)

lemma unat_ucast_32_64: "unat (ucast (m :: 32 word) :: 64 word) = unat m"
  by (simp add: unsigned_ucast_eq take_bit_nat_eq_self unsigned_less[THEN less_trans])

lemma SIZE_FORMAT_ucast: "SIZE_FORMAT (ucast (m :: 32 word)) = decimal (unat m)"
  by (simp add: SIZE_FORMAT_def unat_ucast_32_64)

lemma unat_SIZE_MAX: "unat SIZE_MAX = 18446744073709551615"
  by (simp add: SIZE_MAX_def unsigned_minus_1_eq_mask mask_eq_exp_minus_1)

lemma SIZE_FORMAT_SIZE_MAX: "SIZE_FORMAT SIZE_MAX = ''18446744073709551615''"
  by (simp add: SIZE_FORMAT_def unat_SIZE_MAX decimal.simps digit_def)

text \<open>No value that system call 452 can deliver, widened to \<^verbatim>\<open>size_t\<close>, is \<^verbatim>\<open>SIZE_MAX\<close>.\<close>

lemma SIZE_MAX_not_read: "SIZE_MAX \<noteq> ucast (m :: 32 word)"
proof
  assume "SIZE_MAX = ucast m"
  then have "unat SIZE_MAX = unat (ucast m :: 64 word)"
    by (rule arg_cong)
  then have "unat SIZE_MAX = unat m"
    by (simp add: unat_ucast_32_64)
  moreover have "unat m < 2 ^ 32"
    using unsigned_less [of m] by simp
  ultimately show False
    by (simp add: unat_SIZE_MAX)
qed

lemma SIZE_MAX_not_0: "SIZE_MAX \<noteq> 0"
  by (simp add: SIZE_MAX_def)

lemma count_comma_indices:
  "count_list (concat (map (\<lambda>v. SIZE_FORMAT v @ '','') vs)) (CHR '','') = length vs"
  by (induction vs) (simp_all add: SIZE_FORMAT_def count_comma_decimal)

lemma count_comma_line:
  "count_list (''faulty page index: '' @ concat (map (\<lambda>v. SIZE_FORMAT v @ '','') vs)) (CHR '','')
     = length vs"
  by (simp add: count_comma_indices)

text \<open>The fixed notation of the concrete platform is never shorter than \<open>0.\<close> and \<open>p\<close> digits.\<close>

lemma length_zero_pad: "p \<le> length (zero_pad p s)"
  by (simp add: zero_pad_def)

lemma length_fixed_format: "p + 2 \<le> length (fixed_format p x)"
proof -
  define n where "n = nat \<bar>x\<bar> div 10 ^ (6 - p)"
  have "decimal (n div 10 ^ p) \<noteq> []"
    by (rule decimal_not_Nil)
  then have a: "1 \<le> length (decimal (n div 10 ^ p))"
    by (cases "decimal (n div 10 ^ p)") simp_all
  have b: "p \<le> length (zero_pad p (decimal (n mod 10 ^ p)))"
    by (rule length_zero_pad)
  have "length (fixed_format p x) =
      length (if x < 0 then ''-'' else []) + length (decimal (n div 10 ^ p)) + 1
      + length (zero_pad p (decimal (n mod 10 ^ p)))"
    by (simp add: fixed_format_def Let_def n_def)
  with a b show ?thesis
    by linarith
qed

subsection \<open>What log\_start and log\_end do\<close>

text \<open>The loop prints the 2048 entries in order, each followed by a comma.\<close>

lemma print_indices_from:
  "i \<le> 2048 \<Longrightarrow>
   print_indices b i out =
     out\<lparr>current_line := current_line out @ concat (map (\<lambda>k. SIZE_FORMAT (b k) @ '','') [i..<2048])\<rparr>"
proof (induction b i out rule: print_indices.induct)
  case (1 indices i out)
  show ?case
  proof (cases "i < 2048")
    case True
    then have "[i..<2048] = i # [Suc i..<2048]"
      by (simp add: upt_conv_Cons)
    with True 1 show ?thesis
      by (subst print_indices.simps) (simp add: print_def)
  next
    case False
    with 1 have "i = 2048" by simp
    then show ?thesis
      by (subst print_indices.simps) simp
  qed
qed

lemma faulty_page_diagnostic_logged:
  "logged (fst (faulty_page_diagnostic out os)) =
     logged out
     @ (if malloc_ok os
        then (case page_indices os of
                Some b \<Rightarrow> [current_line out @ ''faulty page index: ''
                           @ concat (map (\<lambda>k. SIZE_FORMAT (b k) @ '','') [0..<2048])]
              | None \<Rightarrow> [])
        else [])"
  by (cases "page_indices os")
    (simp_all add: faulty_page_diagnostic_def cr_def print_def print_indices_from)

lemma faulty_page_diagnostic_calls:
  "snd (faulty_page_diagnostic out os) =
     Malloc 16384 (malloc_ok os)
     # (if malloc_ok os then [Faulty_page_index_query (page_indices os \<noteq> None), Free] else [])
     @ [Faulty_page_index_reset]"
  by (cases "page_indices os") (simp_all add: faulty_page_diagnostic_def)

lemma log_end_logged:
  "logged (log_out (log_end P this e os)) =
     (title this
      @ (if gc_cause this \<noteq> no_gc P then '' ('' @ GCCause_to_string P (gc_cause this) @ '')'' else [])
      @ (if heap_usage_before this \<noteq> SIZE_MAX
         then '' '' @ SIZE_FORMAT (heap_usage_before this div M) @ ''M->''
              @ SIZE_FORMAT (used_at_end os div M) @ ''M('' @ SIZE_FORMAT (capacity_at_end os div M)
              @ ''M) majflt('' @ SIZE_FORMAT (majflt_before this) @ ''->''
              @ SIZE_FORMAT (case swap_stats_at_end os of Some m \<Rightarrow> ucast m | None \<Rightarrow> - 1) @ '')''
         else [])
      @ '' '' @ format_f P 3 (counter_to_millis P (e - start this)) @ ''ms'')
     # (if log_heap_usage this \<and> strstr (title this) ''Pause Full'' \<noteq> None \<and> malloc_ok os
        then (case page_indices os of
                Some b \<Rightarrow> [''faulty page index: '' @ concat (map (\<lambda>k. SIZE_FORMAT (b k) @ '','') [0..<2048])]
              | None \<Rightarrow> [])
        else [])"
  by (cases "strstr (title this) ''Pause Full''"; cases "log_heap_usage this";
      cases "page_indices os")
    (simp_all add: log_end_def Let_def case_prod_beta faulty_page_diagnostic_logged
      print_cr_def cr_def print_def LogStream_new_def printf_f_0)

lemma log_end_calls:
  "calls (log_end P this e os) =
     (if heap_usage_before this \<noteq> SIZE_MAX
      then [Heap_used (used_at_end os), Heap_capacity (capacity_at_end os),
            Get_swap_stats (swap_stats_at_end os)]
      else [])
     @ (if log_heap_usage this \<and> strstr (title this) ''Pause Full'' \<noteq> None
        then Malloc 16384 (malloc_ok os)
             # (if malloc_ok os then [Faulty_page_index_query (page_indices os \<noteq> None), Free] else [])
             @ [Faulty_page_index_reset]
        else [])"
  by (cases "strstr (title this) ''Pause Full''"; cases "log_heap_usage this")
    (simp_all add: log_end_def Let_def case_prod_beta faulty_page_diagnostic_calls)

lemma end_read_attempted:
  "Get_swap_stats r \<in> set (calls (log_end P this e os)) \<longleftrightarrow>
     heap_usage_before this \<noteq> SIZE_MAX \<and> r = swap_stats_at_end os"
  by (auto simp: log_end_calls)

lemma log_start_self:
  "self (log_start P this s os) =
     (if log_heap_usage this
      then this\<lparr>start := s, heap_usage_before := used_at_start os,
                majflt_before := (case swap_stats_at_start os of Some m \<Rightarrow> ucast m | None \<Rightarrow> majflt_before this)\<rparr>
      else this\<lparr>start := s\<rparr>)"
  by (simp add: log_start_def Let_def split: option.split)

lemma log_start_calls:
  "calls (log_start P this s os) =
     (if log_heap_usage this
      then [Heap_used (used_at_start os), Get_swap_stats (swap_stats_at_start os)]
      else [])"
  by (simp add: log_start_def Let_def)

lemma log_start_logged:
  "logged (log_out (log_start P this s os)) =
     [title this
      @ (if gc_cause this \<noteq> no_gc P then '' ('' @ GCCause_to_string P (gc_cause this) @ '')'' else [])]"
  by (simp add: log_start_def Let_def cr_def print_def LogStream_new_def)

lemma log_start_fields:
  "title (self (log_start P this s os)) = title this"
  "gc_cause (self (log_start P this s os)) = gc_cause this"
  "log_heap_usage (self (log_start P this s os)) = log_heap_usage this"
  "start (self (log_start P this s os)) = s"
  "heap_usage_before (self (log_start P this s os)) =
     (if log_heap_usage this then used_at_start os else heap_usage_before this)"
  "majflt_before (self (log_start P this s os)) =
     (if log_heap_usage this
      then (case swap_stats_at_start os of Some m \<Rightarrow> ucast m | None \<Rightarrow> majflt_before this)
      else majflt_before this)"
  by (simp_all add: log_start_self)

lemma new_fields:
  "title (GCTraceTimeLoggerImpl_new ttl cause flag dflt) = ttl"
  "gc_cause (GCTraceTimeLoggerImpl_new ttl cause flag dflt) = cause"
  "log_heap_usage (GCTraceTimeLoggerImpl_new ttl cause flag dflt) = flag"
  "heap_usage_before (GCTraceTimeLoggerImpl_new ttl cause flag dflt) = SIZE_MAX"
  "majflt_before (GCTraceTimeLoggerImpl_new ttl cause flag dflt) = dflt"
  by (simp_all add: GCTraceTimeLoggerImpl_new_def)

subsection \<open>The event timer\<close>

text \<open>
  Claim C1. Whatever the object holds when \<^verbatim>\<open>log_start\<close> is called (usage tracking on or
  off), whatever the heap accessor and the two system calls answer, and for every pair of
  ticks (so also when the end tick is not before the start tick), the first line that
  \<^verbatim>\<open>log_end\<close> hands to the log starts with the title and the cause and ends with a blank,
  the conversion \<^verbatim>\<open>%.3f\<close> of \<^verbatim>\<open>counter_to_millis(end - start)\<close> and \<^verbatim>\<open>ms\<close>. The difference
  is the one the code takes, in the tick type; three digits after the point are what the
  conversion \<^verbatim>\<open>%.3f\<close> of the C library prints.
\<close>

theorem duration_suffix_always_emitted:
  "\<exists>seg rest.
     logged (log_out (log_end P (self (log_start P this start_now os0)) now os1)) =
       (title this
        @ (if gc_cause this \<noteq> no_gc P then '' ('' @ GCCause_to_string P (gc_cause this) @ '')''
           else [])
        @ seg @ '' '' @ format_f P 3 (counter_to_millis P (now - start_now)) @ ''ms'') # rest"
  unfolding log_end_logged log_start_fields by (intro exI) (rule refl)

text \<open>
  Claim C6. An event constructed with usage tracking off logs one line at its end: the
  title, the cause in parentheses unless it is \<^verbatim>\<open>_no_gc\<close>, and the duration. Nothing
  stands between the cause and the duration, and \<^verbatim>\<open>log_end\<close> asks neither the heap nor a
  system call.
\<close>

theorem usage_disabled_end_line:
  "logged (log_out (log_end P
      (self (log_start P (GCTraceTimeLoggerImpl_new ttl cause False dflt) start_now os0)) now os1)) =
     [ttl @ (if cause \<noteq> no_gc P then '' ('' @ GCCause_to_string P cause @ '')'' else [])
      @ '' '' @ format_f P 3 (counter_to_millis P (now - start_now)) @ ''ms'']
   \<and> calls (log_end P
      (self (log_start P (GCTraceTimeLoggerImpl_new ttl cause False dflt) start_now os0)) now os1) = []"
  by (simp add: log_end_logged log_end_calls log_start_fields new_fields)

text \<open>
  Claim C2. For an event constructed with usage tracking on:
  \<^item> when system call 452 fails during \<^verbatim>\<open>log_start\<close>, \<^verbatim>\<open>_majflt_before\<close> keeps its default,
    the call was made once, and the start line is logged all the same;
  \<^item> when system call 452 fails during \<^verbatim>\<open>log_end\<close> (and the heap usage read at start was not
    \<^verbatim>\<open>SIZE_MAX\<close>, the one value for which \<^verbatim>\<open>log_end\<close> prints no segment and makes no read),
    the call was made once and the line shows the "before" count as stored at start
    (the count read then, or the default), then as "after" count the text
    \<open>18446744073709551615\<close>, which is \<^verbatim>\<open>SIZE_MAX\<close>, and the line still ends with the duration;
  \<^item> that text is not the text of zero, and not the text of any count the system call can
    deliver (an \<^verbatim>\<open>unsigned int\<close>), so it is neither a zero nor a value read earlier.
\<close>

theorem fault_read_failure_sentinels:
  fixes P :: "('c, 'd) platform" and ttl :: string and cause :: 'c and dflt :: "64 word"
    and start_now now :: "64 word" and os0 :: os_at_start and os1 :: os_at_end
  defines "this0 \<equiv> GCTraceTimeLoggerImpl_new ttl cause True dflt"
  defines "started \<equiv> log_start P this0 start_now os0"
  defines "ended \<equiv> log_end P (self started) now os1"
  shows
    "(swap_stats_at_start os0 = None \<longrightarrow>
        majflt_before (self started) = dflt
        \<and> length (filter is_get_swap_stats (calls started)) = 1
        \<and> logged (log_out started)
            = [ttl @ (if cause \<noteq> no_gc P then '' ('' @ GCCause_to_string P cause @ '')'' else [])])
     \<and> (swap_stats_at_end os1 = None \<longrightarrow> used_at_start os0 \<noteq> SIZE_MAX \<longrightarrow>
          length (filter is_get_swap_stats (calls ended)) = 1
          \<and> (\<exists>rest. logged (log_out ended) =
             (ttl @ (if cause \<noteq> no_gc P then '' ('' @ GCCause_to_string P cause @ '')'' else [])
              @ '' '' @ SIZE_FORMAT (used_at_start os0 div M) @ ''M->''
              @ SIZE_FORMAT (used_at_end os1 div M) @ ''M('' @ SIZE_FORMAT (capacity_at_end os1 div M)
              @ ''M) majflt(''
              @ SIZE_FORMAT (case swap_stats_at_start os0 of Some m \<Rightarrow> ucast m | None \<Rightarrow> dflt)
              @ ''->'' @ ''18446744073709551615'' @ '')''
              @ '' '' @ format_f P 3 (counter_to_millis P (now - start_now)) @ ''ms'') # rest))
     \<and> ''18446744073709551615'' = SIZE_FORMAT SIZE_MAX
     \<and> SIZE_FORMAT SIZE_MAX \<noteq> SIZE_FORMAT 0
     \<and> (\<forall>m :: 32 word. SIZE_FORMAT SIZE_MAX \<noteq> SIZE_FORMAT (ucast m))"
proof (intro conjI impI allI)
  assume "swap_stats_at_start os0 = None"
  then show "majflt_before (self started) = dflt"
    by (simp add: started_def this0_def log_start_fields new_fields)
next
  show "length (filter is_get_swap_stats (calls started)) = 1"
    by (simp add: started_def this0_def log_start_calls new_fields is_get_swap_stats_def)
next
  show "logged (log_out started)
      = [ttl @ (if cause \<noteq> no_gc P then '' ('' @ GCCause_to_string P cause @ '')'' else [])]"
    by (simp add: started_def this0_def log_start_logged new_fields)
next
  assume u: "used_at_start os0 \<noteq> SIZE_MAX"
  have f: "heap_usage_before (self started) = used_at_start os0"
    "log_heap_usage (self started)" "title (self started) = ttl"
    by (simp_all add: started_def this0_def log_start_fields new_fields)
  show "length (filter is_get_swap_stats (calls ended)) = 1"
    using u by (simp add: ended_def log_end_calls f is_get_swap_stats_def)
next
  assume e: "swap_stats_at_end os1 = None" and u: "used_at_start os0 \<noteq> SIZE_MAX"
  have f: "heap_usage_before (self started) = used_at_start os0"
    "majflt_before (self started) =
       (case swap_stats_at_start os0 of Some m \<Rightarrow> ucast m | None \<Rightarrow> dflt)"
    "title (self started) = ttl" "gc_cause (self started) = cause" "start (self started) = start_now"
    by (simp_all add: started_def this0_def log_start_fields new_fields split: option.split)
  have s: "SIZE_FORMAT (- 1) = ''18446744073709551615''"
    using SIZE_FORMAT_SIZE_MAX by (simp add: SIZE_MAX_def)
  show "\<exists>rest. logged (log_out ended) =
             (ttl @ (if cause \<noteq> no_gc P then '' ('' @ GCCause_to_string P cause @ '')'' else [])
              @ '' '' @ SIZE_FORMAT (used_at_start os0 div M) @ ''M->''
              @ SIZE_FORMAT (used_at_end os1 div M) @ ''M('' @ SIZE_FORMAT (capacity_at_end os1 div M)
              @ ''M) majflt(''
              @ SIZE_FORMAT (case swap_stats_at_start os0 of Some m \<Rightarrow> ucast m | None \<Rightarrow> dflt)
              @ ''->'' @ ''18446744073709551615'' @ '')''
              @ '' '' @ format_f P 3 (counter_to_millis P (now - start_now)) @ ''ms'') # rest"
    using u unfolding ended_def log_end_logged f e
    by (simp add: s)
next
  show "''18446744073709551615'' = SIZE_FORMAT SIZE_MAX"
    by (simp add: SIZE_FORMAT_SIZE_MAX)
next
  show "SIZE_FORMAT SIZE_MAX \<noteq> SIZE_FORMAT 0"
    using SIZE_FORMAT_inj SIZE_MAX_not_0 by blast
next
  fix m :: "32 word"
  show "SIZE_FORMAT SIZE_MAX \<noteq> SIZE_FORMAT (ucast m)"
    using SIZE_FORMAT_inj SIZE_MAX_not_read by blast
qed

text \<open>
  Both reads fail for a young pause caused by an allocation failure: the count before
  stays at the default 0 and the line reads as below.
\<close>

theorem fault_read_failure_sentinels_witness:
  "swap_stats_at_start \<lparr>used_at_start = 104857600, swap_stats_at_start = None\<rparr> = None
   \<and> swap_stats_at_end \<lparr>used_at_end = 62914560, capacity_at_end = 536870912,
        swap_stats_at_end = None, malloc_ok = True, page_indices = None\<rparr> = None
   \<and> used_at_start \<lparr>used_at_start = 104857600, swap_stats_at_start = None\<rparr> \<noteq> SIZE_MAX
   \<and> majflt_before (self (log_start fixed_platform
            (GCTraceTimeLoggerImpl_new ''Pause Young'' ''Allocation Failure'' True 0) 1000
            \<lparr>used_at_start = 104857600, swap_stats_at_start = None\<rparr>)) = 0
   \<and> length (filter is_get_swap_stats (calls (log_end fixed_platform
         (self (log_start fixed_platform
            (GCTraceTimeLoggerImpl_new ''Pause Young'' ''Allocation Failure'' True 0) 1000
            \<lparr>used_at_start = 104857600, swap_stats_at_start = None\<rparr>))
         4257000
         \<lparr>used_at_end = 62914560, capacity_at_end = 536870912, swap_stats_at_end = None,
          malloc_ok = True, page_indices = None\<rparr>))) = 1
   \<and> (\<exists>rest. logged (log_out (log_end fixed_platform
         (self (log_start fixed_platform
            (GCTraceTimeLoggerImpl_new ''Pause Young'' ''Allocation Failure'' True 0) 1000
            \<lparr>used_at_start = 104857600, swap_stats_at_start = None\<rparr>))
         4257000
         \<lparr>used_at_end = 62914560, capacity_at_end = 536870912, swap_stats_at_end = None,
          malloc_ok = True, page_indices = None\<rparr>))
       = ''Pause Young (Allocation Failure) 100M->60M(512M) majflt(0->18446744073709551615) 4.256ms''
         # rest)"
proof -
  have u: "used_at_start \<lparr>used_at_start = 104857600, swap_stats_at_start = None\<rparr> \<noteq> SIZE_MAX"
    by (simp add: SIZE_MAX_def)
  have e: "SIZE_FORMAT (104857600 div M) = ''100''" "SIZE_FORMAT (62914560 div M) = ''60''"
    "SIZE_FORMAT (536870912 div M) = ''512''" "SIZE_FORMAT 0 = ''0''"
    "fixed_format 3 4256000 = ''4.256''"
    by (simp_all add: SIZE_FORMAT_def unat_div M_def decimal.simps digit_def fixed_format_def
        zero_pad_def)
  show ?thesis
    using u fault_read_failure_sentinels [where P = fixed_platform and ttl = "''Pause Young''"
        and cause = "''Allocation Failure''" and dflt = 0 and start_now = 1000 and now = 4257000
        and ?os0.0 = "\<lparr>used_at_start = 104857600, swap_stats_at_start = None\<rparr>"
        and ?os1.0 = "\<lparr>used_at_end = 62914560, capacity_at_end = 536870912,
          swap_stats_at_end = None, malloc_ok = True, page_indices = None\<rparr>"]
    by (auto simp: e fixed_platform_def)
qed

text \<open>
  Claim C7. For an event constructed with usage tracking on, when system call 452
  delivers \<open>before\<close> during \<^verbatim>\<open>log_start\<close> and \<open>after\<close> during \<^verbatim>\<open>log_end\<close> (and the heap usage
  read at start was not \<^verbatim>\<open>SIZE_MAX\<close>, the one value for which \<^verbatim>\<open>log_end\<close> prints no segment
  and makes no read), each of the two functions makes that call once and the end line
  holds \<^verbatim>\<open>majflt(<before>-><after>)\<close> with the two counts in decimal exactly as read, after
  the usage segment and before the duration.
\<close>

theorem majflt_segment_as_read:
  fixes P :: "('c, 'd) platform" and ttl :: string and cause :: 'c and dflt :: "64 word"
    and start_now now :: "64 word" and os0 :: os_at_start and os1 :: os_at_end
    and before after :: "32 word"
  defines "started \<equiv> log_start P (GCTraceTimeLoggerImpl_new ttl cause True dflt) start_now os0"
  defines "ended \<equiv> log_end P (self started) now os1"
  assumes "swap_stats_at_start os0 = Some before"
    and "swap_stats_at_end os1 = Some after"
    and "used_at_start os0 \<noteq> SIZE_MAX"
  shows "(\<exists>rest. logged (log_out ended) =
     (ttl @ (if cause \<noteq> no_gc P then '' ('' @ GCCause_to_string P cause @ '')'' else [])
      @ '' '' @ SIZE_FORMAT (used_at_start os0 div M) @ ''M->''
      @ SIZE_FORMAT (used_at_end os1 div M) @ ''M('' @ SIZE_FORMAT (capacity_at_end os1 div M)
      @ ''M) '' @ ''majflt('' @ decimal (unat before) @ ''->'' @ decimal (unat after) @ '')''
      @ '' '' @ format_f P 3 (counter_to_millis P (now - start_now)) @ ''ms'') # rest)
    \<and> filter is_get_swap_stats (calls started) = [Get_swap_stats (Some before)]
    \<and> filter is_get_swap_stats (calls ended) = [Get_swap_stats (Some after)]"
proof (intro conjI)
  have f: "heap_usage_before (self started) = used_at_start os0"
    "majflt_before (self started) = ucast before"
    "title (self started) = ttl" "gc_cause (self started) = cause" "start (self started) = start_now"
    by (simp_all add: started_def log_start_fields new_fields assms(3))
  show "\<exists>rest. logged (log_out ended) =
     (ttl @ (if cause \<noteq> no_gc P then '' ('' @ GCCause_to_string P cause @ '')'' else [])
      @ '' '' @ SIZE_FORMAT (used_at_start os0 div M) @ ''M->''
      @ SIZE_FORMAT (used_at_end os1 div M) @ ''M('' @ SIZE_FORMAT (capacity_at_end os1 div M)
      @ ''M) '' @ ''majflt('' @ decimal (unat before) @ ''->'' @ decimal (unat after) @ '')''
      @ '' '' @ format_f P 3 (counter_to_millis P (now - start_now)) @ ''ms'') # rest"
    using assms(5) unfolding ended_def log_end_logged f assms(4)
    by (simp add: SIZE_FORMAT_ucast)
next
  show "filter is_get_swap_stats (calls started) = [Get_swap_stats (Some before)]"
    by (simp add: started_def log_start_calls new_fields is_get_swap_stats_def assms(3))
next
  have f: "heap_usage_before (self started) = used_at_start os0"
    by (simp add: started_def log_start_fields new_fields)
  show "filter is_get_swap_stats (calls ended) = [Get_swap_stats (Some after)]"
    using assms(5) by (simp add: ended_def log_end_calls f is_get_swap_stats_def assms(4))
qed

text \<open>
  The young pause of the spec's scenario: 100 MB used before, 60 MB after, 512 MB
  capacity, 10 and 12 major faults, 4.256 ms.
\<close>

theorem majflt_segment_as_read_witness:
  "swap_stats_at_start \<lparr>used_at_start = 104857600, swap_stats_at_start = Some 10\<rparr> = Some 10
   \<and> swap_stats_at_end \<lparr>used_at_end = 62914560, capacity_at_end = 536870912,
        swap_stats_at_end = Some 12, malloc_ok = True, page_indices = None\<rparr> = Some 12
   \<and> used_at_start \<lparr>used_at_start = 104857600, swap_stats_at_start = Some 10\<rparr> \<noteq> SIZE_MAX
   \<and> (\<exists>rest. logged (log_out (log_end fixed_platform
         (self (log_start fixed_platform
            (GCTraceTimeLoggerImpl_new ''Pause Young'' ''No GC'' True 0) 1000
            \<lparr>used_at_start = 104857600, swap_stats_at_start = Some 10\<rparr>))
         4257000
         \<lparr>used_at_end = 62914560, capacity_at_end = 536870912, swap_stats_at_end = Some 12,
          malloc_ok = True, page_indices = None\<rparr>))
       = ''Pause Young 100M->60M(512M) majflt(10->12) 4.256ms'' # rest)
   \<and> filter is_get_swap_stats (calls (log_end fixed_platform
         (self (log_start fixed_platform
            (GCTraceTimeLoggerImpl_new ''Pause Young'' ''No GC'' True 0) 1000
            \<lparr>used_at_start = 104857600, swap_stats_at_start = Some 10\<rparr>))
         4257000
         \<lparr>used_at_end = 62914560, capacity_at_end = 536870912, swap_stats_at_end = Some 12,
          malloc_ok = True, page_indices = None\<rparr>)) = [Get_swap_stats (Some 12)]"
proof -
  have h1: "swap_stats_at_start \<lparr>used_at_start = 104857600, swap_stats_at_start = Some 10\<rparr>
      = Some 10"
    by simp
  have h2: "swap_stats_at_end \<lparr>used_at_end = 62914560, capacity_at_end = 536870912,
        swap_stats_at_end = Some 12, malloc_ok = True, page_indices = None\<rparr> = Some 12"
    by simp
  have h3: "used_at_start \<lparr>used_at_start = 104857600, swap_stats_at_start = Some 10\<rparr> \<noteq> SIZE_MAX"
    by (simp add: SIZE_MAX_def)
  have e: "SIZE_FORMAT (104857600 div M) = ''100''" "SIZE_FORMAT (62914560 div M) = ''60''"
    "SIZE_FORMAT (536870912 div M) = ''512''"
    "decimal 10 = ''10''" "decimal 12 = ''12''"
    "fixed_format 3 4256000 = ''4.256''"
    by (simp_all add: SIZE_FORMAT_def unat_div M_def decimal.simps digit_def fixed_format_def
        zero_pad_def)
  show ?thesis
    using h3 majflt_segment_as_read [OF h1 h2 h3, where P = fixed_platform
        and ttl = "''Pause Young''" and cause = "''No GC''" and dflt = 0 and start_now = 1000
        and now = 4257000]
    by (auto simp: e fixed_platform_def)
qed

text \<open>
  Claim C3, as the code has it. When \<^verbatim>\<open>log_end\<close> runs on an object with usage tracking on
  whose title contains \<^verbatim>\<open>Pause Full\<close>:
  \<^item> a buffer of 2048 \<^verbatim>\<open>unsigned long\<close> is requested; the page-index query is made once
    when the allocation succeeds and not at all when it fails;
  \<^item> the reset is issued exactly once, as the last call, after the query and the release
    of the buffer if there were any;
  \<^item> when the query was made and succeeded, one more line is logged: \<^verbatim>\<open>faulty page index: \<close>
    and the 2048 entries of the buffer in order, each in decimal and followed by a
    comma, so the line holds 2048 commas; otherwise no further line is logged.
\<close>

theorem full_pause_diagnostic:
  assumes "log_heap_usage this" and "strstr (title this) ''Pause Full'' \<noteq> None"
  shows "length (filter is_query (calls (log_end P this now os))) = (if malloc_ok os then 1 else 0)
    \<and> length (filter is_reset (calls (log_end P this now os))) = 1
    \<and> (\<exists>reads. calls (log_end P this now os) =
          reads @ Malloc (2048 * 8) (malloc_ok os)
          # (if malloc_ok os then [Faulty_page_index_query (page_indices os \<noteq> None), Free] else [])
          @ [Faulty_page_index_reset]
          \<and> filter is_query reads = [] \<and> filter is_reset reads = [])
    \<and> (case page_indices os of
          Some indices \<Rightarrow>
            tl (logged (log_out (log_end P this now os))) =
              (if malloc_ok os
               then [''faulty page index: ''
                     @ concat (map (\<lambda>v. SIZE_FORMAT v @ '','') (map indices [0..<2048]))]
               else [])
            \<and> length (map indices [0..<2048]) = 2048
            \<and> count_list (''faulty page index: ''
                  @ concat (map (\<lambda>v. SIZE_FORMAT v @ '','') (map indices [0..<2048]))) (CHR '','')
                = 2048
        | None \<Rightarrow> tl (logged (log_out (log_end P this now os))) = [])"
proof (cases "page_indices os")
  case None
  with assms show ?thesis
    by (auto simp: log_end_calls log_end_logged is_query_def is_reset_def)
next
  case (Some indices)
  have "count_list (''faulty page index: ''
      @ concat (map (\<lambda>v. SIZE_FORMAT v @ '','') (map indices [0..<2048]))) (CHR '','') = 2048"
    by (simp only: count_comma_line) simp
  with assms Some show ?thesis
    by (auto simp: log_end_calls log_end_logged is_query_def is_reset_def comp_def)
qed

text \<open>A full pause whose allocation and query succeed, the buffer holding 0, 1, 2, ...\<close>

theorem full_pause_diagnostic_witness:
  "log_heap_usage (self (log_start fixed_platform
            (GCTraceTimeLoggerImpl_new ''Pause Full'' ''No GC'' True 0) 1000
            \<lparr>used_at_start = 104857600, swap_stats_at_start = Some 10\<rparr>))
   \<and> strstr (title (self (log_start fixed_platform
            (GCTraceTimeLoggerImpl_new ''Pause Full'' ''No GC'' True 0) 1000
            \<lparr>used_at_start = 104857600, swap_stats_at_start = Some 10\<rparr>))) ''Pause Full'' \<noteq> None
   \<and> length (filter is_query (calls (log_end fixed_platform (self (log_start fixed_platform
            (GCTraceTimeLoggerImpl_new ''Pause Full'' ''No GC'' True 0) 1000
            \<lparr>used_at_start = 104857600, swap_stats_at_start = Some 10\<rparr>)) 4257000
         \<lparr>used_at_end = 62914560, capacity_at_end = 536870912, swap_stats_at_end = Some 12,
          malloc_ok = True, page_indices = Some of_nat\<rparr>))) = 1
   \<and> length (filter is_reset (calls (log_end fixed_platform (self (log_start fixed_platform
            (GCTraceTimeLoggerImpl_new ''Pause Full'' ''No GC'' True 0) 1000
            \<lparr>used_at_start = 104857600, swap_stats_at_start = Some 10\<rparr>)) 4257000
         \<lparr>used_at_end = 62914560, capacity_at_end = 536870912, swap_stats_at_end = Some 12,
          malloc_ok = True, page_indices = Some of_nat\<rparr>))) = 1
   \<and> tl (logged (log_out (log_end fixed_platform (self (log_start fixed_platform
            (GCTraceTimeLoggerImpl_new ''Pause Full'' ''No GC'' True 0) 1000
            \<lparr>used_at_start = 104857600, swap_stats_at_start = Some 10\<rparr>)) 4257000
         \<lparr>used_at_end = 62914560, capacity_at_end = 536870912, swap_stats_at_end = Some 12,
          malloc_ok = True, page_indices = Some of_nat\<rparr>)))
       = [''faulty page index: ''
          @ concat (map (\<lambda>v. SIZE_FORMAT v @ '','') (map of_nat [0..<2048]))]"
proof -
  have h1: "log_heap_usage (self (log_start fixed_platform
            (GCTraceTimeLoggerImpl_new ''Pause Full'' ''No GC'' True 0) 1000
            \<lparr>used_at_start = 104857600, swap_stats_at_start = Some 10\<rparr>))"
    by (simp add: log_start_fields new_fields)
  have h2: "strstr (title (self (log_start fixed_platform
            (GCTraceTimeLoggerImpl_new ''Pause Full'' ''No GC'' True 0) 1000
            \<lparr>used_at_start = 104857600, swap_stats_at_start = Some 10\<rparr>))) ''Pause Full'' \<noteq> None"
    by (simp add: log_start_fields new_fields)
  show ?thesis
    using h1 h2 full_pause_diagnostic [OF h1 h2, where P = fixed_platform and now = 4257000
        and os = "\<lparr>used_at_end = 62914560, capacity_at_end = 536870912, swap_stats_at_end = Some 12,
          malloc_ok = True, page_indices = Some of_nat\<rparr>"]
    by simp
qed

text \<open>
  Claim C3 as stated ("exactly one query is attempted") fails when \<^verbatim>\<open>malloc\<close> returns a
  null pointer: usage tracking is on, the title is \<^verbatim>\<open>Pause Full\<close>, and no query is made.
\<close>

theorem full_pause_query_skipped_counterexample:
  "log_heap_usage (self (log_start fixed_platform
            (GCTraceTimeLoggerImpl_new ''Pause Full'' ''No GC'' True 0) 1000
            \<lparr>used_at_start = 104857600, swap_stats_at_start = Some 10\<rparr>))
   \<and> strstr (title (self (log_start fixed_platform
            (GCTraceTimeLoggerImpl_new ''Pause Full'' ''No GC'' True 0) 1000
            \<lparr>used_at_start = 104857600, swap_stats_at_start = Some 10\<rparr>))) ''Pause Full'' \<noteq> None
   \<and> length (filter is_query (calls (log_end fixed_platform (self (log_start fixed_platform
            (GCTraceTimeLoggerImpl_new ''Pause Full'' ''No GC'' True 0) 1000
            \<lparr>used_at_start = 104857600, swap_stats_at_start = Some 10\<rparr>)) 4257000
         \<lparr>used_at_end = 62914560, capacity_at_end = 536870912, swap_stats_at_end = Some 12,
          malloc_ok = False, page_indices = None\<rparr>))) \<noteq> 1"
  by (simp add: log_end_calls log_start_fields new_fields is_query_def)

text \<open>
  Claim C10. When usage tracking is on, the title contains \<^verbatim>\<open>Pause Full\<close> and \<^verbatim>\<open>malloc\<close>
  returns a null pointer, \<^verbatim>\<open>log_end\<close> makes no page-index query and logs the timing line
  only, and its last call is still the reset, right after the failed allocation.
\<close>

theorem failed_allocation_skips_query:
  assumes "log_heap_usage this" and "strstr (title this) ''Pause Full'' \<noteq> None"
    and "\<not> malloc_ok os"
  shows "filter is_query (calls (log_end P this now os)) = []
    \<and> length (logged (log_out (log_end P this now os))) = 1
    \<and> calls (log_end P this now os) =
        (if heap_usage_before this \<noteq> SIZE_MAX
         then [Heap_used (used_at_end os), Heap_capacity (capacity_at_end os),
               Get_swap_stats (swap_stats_at_end os)]
         else [])
        @ [Malloc (2048 * 8) False, Faulty_page_index_reset]"
  using assms by (simp add: log_end_calls log_end_logged is_query_def)

theorem failed_allocation_skips_query_witness:
  "log_heap_usage (self (log_start fixed_platform
            (GCTraceTimeLoggerImpl_new ''Pause Full'' ''No GC'' True 0) 1000
            \<lparr>used_at_start = 104857600, swap_stats_at_start = Some 10\<rparr>))
   \<and> strstr (title (self (log_start fixed_platform
            (GCTraceTimeLoggerImpl_new ''Pause Full'' ''No GC'' True 0) 1000
            \<lparr>used_at_start = 104857600, swap_stats_at_start = Some 10\<rparr>))) ''Pause Full'' \<noteq> None
   \<and> \<not> malloc_ok \<lparr>used_at_end = 62914560, capacity_at_end = 536870912, swap_stats_at_end = Some 12,
          malloc_ok = False, page_indices = None\<rparr>
   \<and> filter is_query (calls (log_end fixed_platform (self (log_start fixed_platform
            (GCTraceTimeLoggerImpl_new ''Pause Full'' ''No GC'' True 0) 1000
            \<lparr>used_at_start = 104857600, swap_stats_at_start = Some 10\<rparr>)) 4257000
         \<lparr>used_at_end = 62914560, capacity_at_end = 536870912, swap_stats_at_end = Some 12,
          malloc_ok = False, page_indices = None\<rparr>)) = []
   \<and> length (logged (log_out (log_end fixed_platform (self (log_start fixed_platform
            (GCTraceTimeLoggerImpl_new ''Pause Full'' ''No GC'' True 0) 1000
            \<lparr>used_at_start = 104857600, swap_stats_at_start = Some 10\<rparr>)) 4257000
         \<lparr>used_at_end = 62914560, capacity_at_end = 536870912, swap_stats_at_end = Some 12,
          malloc_ok = False, page_indices = None\<rparr>))) = 1
   \<and> calls (log_end fixed_platform (self (log_start fixed_platform
            (GCTraceTimeLoggerImpl_new ''Pause Full'' ''No GC'' True 0) 1000
            \<lparr>used_at_start = 104857600, swap_stats_at_start = Some 10\<rparr>)) 4257000
         \<lparr>used_at_end = 62914560, capacity_at_end = 536870912, swap_stats_at_end = Some 12,
          malloc_ok = False, page_indices = None\<rparr>) =
       [Heap_used 62914560, Heap_capacity 536870912, Get_swap_stats (Some 12),
        Malloc 16384 False, Faulty_page_index_reset]"
proof -
  have h1: "log_heap_usage (self (log_start fixed_platform
            (GCTraceTimeLoggerImpl_new ''Pause Full'' ''No GC'' True 0) 1000
            \<lparr>used_at_start = 104857600, swap_stats_at_start = Some 10\<rparr>))"
    by (simp add: log_start_fields new_fields)
  have h2: "strstr (title (self (log_start fixed_platform
            (GCTraceTimeLoggerImpl_new ''Pause Full'' ''No GC'' True 0) 1000
            \<lparr>used_at_start = 104857600, swap_stats_at_start = Some 10\<rparr>))) ''Pause Full'' \<noteq> None"
    by (simp add: log_start_fields new_fields)
  have h3: "\<not> malloc_ok \<lparr>used_at_end = 62914560, capacity_at_end = 536870912, swap_stats_at_end = Some 12,
          malloc_ok = False, page_indices = None\<rparr>"
    by simp
  show ?thesis
    using failed_allocation_skips_query [OF h1 h2 h3, where P = fixed_platform and now = 4257000]
    by (simp add: log_start_fields new_fields SIZE_MAX_def is_query_def)
qed

text \<open>
  Claim C9, as the code has it. The usage and fault segment of \<^verbatim>\<open>log_end\<close> depends on the
  stored \<^verbatim>\<open>_heap_usage_before\<close> differing from \<^verbatim>\<open>SIZE_MAX\<close> (the read of system call 452 is
  made exactly then), the full-pause diagnostic on the flag and the title (the reset is
  issued exactly then). So for an event constructed with usage tracking on, whose heap
  usage at start is \<^verbatim>\<open>SIZE_MAX\<close> and whose title contains \<^verbatim>\<open>Pause Full\<close>, the end line is the
  title, the cause and the duration, and the calls of \<^verbatim>\<open>log_end\<close> are those of the
  diagnostic alone: the allocation, the query and the release when the allocation
  succeeded, and the reset.
\<close>

theorem sentinel_usage_gates_segment_only:
  fixes P :: "('c, 'd) platform" and ttl :: string and cause :: 'c and dflt :: "64 word"
    and start_now now :: "64 word" and os0 :: os_at_start and os1 os :: os_at_end
    and this :: "'c GCTraceTimeLoggerImpl"
  defines "started \<equiv> log_start P (GCTraceTimeLoggerImpl_new ttl cause True dflt) start_now os0"
  defines "ended \<equiv> log_end P (self started) now os1"
  assumes "used_at_start os0 = SIZE_MAX" and "strstr ttl ''Pause Full'' \<noteq> None"
  shows "hd (logged (log_out ended)) =
      ttl @ (if cause \<noteq> no_gc P then '' ('' @ GCCause_to_string P cause @ '')'' else [])
      @ '' '' @ format_f P 3 (counter_to_millis P (now - start_now)) @ ''ms''
    \<and> calls ended =
        Malloc (2048 * 8) (malloc_ok os1)
        # (if malloc_ok os1 then [Faulty_page_index_query (page_indices os1 \<noteq> None), Free] else [])
        @ [Faulty_page_index_reset]
    \<and> (Get_swap_stats (swap_stats_at_end os) \<in> set (calls (log_end P this now os))
          \<longleftrightarrow> heap_usage_before this \<noteq> SIZE_MAX)
    \<and> (Faulty_page_index_reset \<in> set (calls (log_end P this now os))
          \<longleftrightarrow> log_heap_usage this \<and> strstr (title this) ''Pause Full'' \<noteq> None)"
proof (intro conjI)
  show "hd (logged (log_out ended)) =
      ttl @ (if cause \<noteq> no_gc P then '' ('' @ GCCause_to_string P cause @ '')'' else [])
      @ '' '' @ format_f P 3 (counter_to_millis P (now - start_now)) @ ''ms''"
    using assms(3)
    by (simp add: ended_def started_def log_end_logged log_start_fields new_fields)
next
  show "calls ended =
        Malloc (2048 * 8) (malloc_ok os1)
        # (if malloc_ok os1 then [Faulty_page_index_query (page_indices os1 \<noteq> None), Free] else [])
        @ [Faulty_page_index_reset]"
    using assms(3,4)
    by (simp add: ended_def started_def log_end_calls log_start_fields new_fields)
next
  show "Get_swap_stats (swap_stats_at_end os) \<in> set (calls (log_end P this now os))
          \<longleftrightarrow> heap_usage_before this \<noteq> SIZE_MAX"
    by (simp add: end_read_attempted)
next
  show "Faulty_page_index_reset \<in> set (calls (log_end P this now os))
          \<longleftrightarrow> log_heap_usage this \<and> strstr (title this) ''Pause Full'' \<noteq> None"
    by (auto simp: log_end_calls)
qed

theorem sentinel_usage_gates_segment_only_witness:
  "used_at_start \<lparr>used_at_start = SIZE_MAX, swap_stats_at_start = Some 10\<rparr> = SIZE_MAX
   \<and> strstr ''Pause Full'' ''Pause Full'' \<noteq> None
   \<and> hd (logged (log_out (log_end fixed_platform (self (log_start fixed_platform
            (GCTraceTimeLoggerImpl_new ''Pause Full'' ''No GC'' True 0) 1000
            \<lparr>used_at_start = SIZE_MAX, swap_stats_at_start = Some 10\<rparr>)) 4257000
         \<lparr>used_at_end = 62914560, capacity_at_end = 536870912, swap_stats_at_end = Some 12,
          malloc_ok = True, page_indices = Some of_nat\<rparr>))) = ''Pause Full 4.256ms''
   \<and> calls (log_end fixed_platform (self (log_start fixed_platform
            (GCTraceTimeLoggerImpl_new ''Pause Full'' ''No GC'' True 0) 1000
            \<lparr>used_at_start = SIZE_MAX, swap_stats_at_start = Some 10\<rparr>)) 4257000
         \<lparr>used_at_end = 62914560, capacity_at_end = 536870912, swap_stats_at_end = Some 12,
          malloc_ok = True, page_indices = Some of_nat\<rparr>) =
       [Malloc 16384 True, Faulty_page_index_query True, Free, Faulty_page_index_reset]"
proof -
  have h1: "used_at_start \<lparr>used_at_start = SIZE_MAX, swap_stats_at_start = Some 10\<rparr> = SIZE_MAX"
    by simp
  have h2: "strstr ''Pause Full'' ''Pause Full'' \<noteq> None"
    by simp
  have e: "fixed_format 3 4256000 = ''4.256''"
    by (simp add: fixed_format_def zero_pad_def decimal.simps digit_def)
  show ?thesis
    using h1 h2 sentinel_usage_gates_segment_only [OF h1 h2, where P = fixed_platform
        and cause = "''No GC''" and dflt = 0 and start_now = 1000 and now = 4257000
        and ?os1.0 = "\<lparr>used_at_end = 62914560, capacity_at_end = 536870912, swap_stats_at_end = Some 12,
          malloc_ok = True, page_indices = Some of_nat\<rparr>"]
    by (simp add: e fixed_platform_def)
qed

text \<open>
  Claim C9 as stated ("the page-index query and reset still run") fails when \<^verbatim>\<open>malloc\<close>
  returns a null pointer: the heap usage at start is \<^verbatim>\<open>SIZE_MAX\<close>, the title is
  \<^verbatim>\<open>Pause Full\<close>, and no query is made.
\<close>

theorem sentinel_usage_query_skipped_counterexample:
  "heap_usage_before (self (log_start fixed_platform
            (GCTraceTimeLoggerImpl_new ''Pause Full'' ''No GC'' True 0) 1000
            \<lparr>used_at_start = SIZE_MAX, swap_stats_at_start = Some 10\<rparr>)) = SIZE_MAX
   \<and> strstr (title (self (log_start fixed_platform
            (GCTraceTimeLoggerImpl_new ''Pause Full'' ''No GC'' True 0) 1000
            \<lparr>used_at_start = SIZE_MAX, swap_stats_at_start = Some 10\<rparr>))) ''Pause Full'' \<noteq> None
   \<and> filter is_query (calls (log_end fixed_platform (self (log_start fixed_platform
            (GCTraceTimeLoggerImpl_new ''Pause Full'' ''No GC'' True 0) 1000
            \<lparr>used_at_start = SIZE_MAX, swap_stats_at_start = Some 10\<rparr>)) 4257000
         \<lparr>used_at_end = 62914560, capacity_at_end = 536870912, swap_stats_at_end = Some 12,
          malloc_ok = False, page_indices = None\<rparr>)) = []"
  by (simp add: log_end_calls log_start_fields new_fields is_query_def)

subsection \<open>The CPU-time sampler\<close>

lemma ctor_calls:
  "snd (GCTraceCPUTime_ctor log_enabled trc secs) =
     (if log_enabled then []
      else (case trc of None \<Rightarrow> []
            | Some t \<Rightarrow> [Should_report (should_report_cpu_time_event t)]))
     @ (if log_enabled \<or> (\<exists>t. trc = Some t \<and> should_report_cpu_time_event t)
        then (case secs of
                Some v \<Rightarrow> [GetTimesSecs secs]
              | None \<Rightarrow> [GetTimesSecs None,
                  Log_warning ''TraceCPUTime: os::getTimesSecs() returned invalid result''])
        else [])"
  by (cases trc; cases secs; cases log_enabled)
    (auto simp: GCTraceCPUTime_ctor_def Let_def)

lemma ctor_self:
  "fst (GCTraceCPUTime_ctor log_enabled trc secs) =
     (case secs of
        Some (real_time, user_time, system_time) \<Rightarrow>
          if log_enabled \<or> (\<exists>t. trc = Some t \<and> should_report_cpu_time_event t)
          then \<lparr>active = True, starting_user_time = user_time,
                starting_system_time = system_time, starting_real_time = real_time,
                tracer = trc\<rparr>
          else \<lparr>active = False, starting_user_time = 0, starting_system_time = 0,
                starting_real_time = 0, tracer = trc\<rparr>
      | None \<Rightarrow> \<lparr>active = False, starting_user_time = 0, starting_system_time = 0,
                  starting_real_time = 0, tracer = trc\<rparr>)"
  by (cases trc; cases secs; cases log_enabled)
    (auto simp: GCTraceCPUTime_ctor_def Let_def)

text \<open>
  Claim C8, as the code has it. With a tracer that is not null, the constructor asks
  \<^verbatim>\<open>should_report_cpu_time_event()\<close> once when \<^verbatim>\<open>log_is_enabled(Info, gc, cpu)\<close> is false and
  not at all when it is true: the operator \<^verbatim>\<open>||\<close> does not evaluate its right operand
  then.
\<close>

theorem should_report_query_count:
  "length (filter is_should_report (snd (GCTraceCPUTime_ctor log_enabled (Some t) secs))) =
     (if log_enabled then 0 else 1)"
  by (cases secs) (auto simp: ctor_calls is_should_report_def)

text \<open>
  Claim C8 as stated ("queried exactly once") fails for a tracer that is not null when
  CPU-time logging is enabled: the predicate is not queried.
\<close>

theorem should_report_not_queried_counterexample:
  "length (filter is_should_report
     (snd (GCTraceCPUTime_ctor True (Some (GCTracer True)) (Some (0, 0, 0 :: int))))) \<noteq> 1"
  by (simp add: ctor_calls is_should_report_def)

text \<open>
  Claim C4. When the constructor asked the OS clock and the answer was invalid, it logged
  the warning and left \<^verbatim>\<open>_active\<close> false; the destructor, the only other member function,
  then does nothing whatever the clock would answer: no read of the clock, no log line,
  no report to the tracer.
\<close>

theorem invalid_start_read_deactivates:
  assumes "GetTimesSecs None \<in> set (snd (GCTraceCPUTime_ctor log_enabled trc secs0))"
  shows "Log_warning ''TraceCPUTime: os::getTimesSecs() returned invalid result''
           \<in> set (snd (GCTraceCPUTime_ctor log_enabled trc secs0))
    \<and> \<not> active (fst (GCTraceCPUTime_ctor log_enabled trc secs0))
    \<and> GCTraceCPUTime_dtor P (fst (GCTraceCPUTime_ctor log_enabled trc secs0)) secs1 = []"
proof -
  from assms have "secs0 = None"
    by (cases secs0) (auto simp: ctor_calls split: if_splits option.splits)
  with assms show ?thesis
    by (auto simp: ctor_calls ctor_self GCTraceCPUTime_dtor_def split: if_splits option.splits)
qed

theorem invalid_start_read_deactivates_witness:
  "GetTimesSecs None \<in> set (snd (GCTraceCPUTime_ctor True None (None :: (int \<times> int \<times> int) option)))
   \<and> Log_warning ''TraceCPUTime: os::getTimesSecs() returned invalid result''
       \<in> set (snd (GCTraceCPUTime_ctor True None (None :: (int \<times> int \<times> int) option)))
   \<and> \<not> active (fst (GCTraceCPUTime_ctor True None (None :: (int \<times> int \<times> int) option)))
   \<and> GCTraceCPUTime_dtor fixed_platform
         (fst (GCTraceCPUTime_ctor True None (None :: (int \<times> int \<times> int) option)))
         (Some (12500000, 3250000, 1120000)) = []"
proof -
  have h: "GetTimesSecs None
      \<in> set (snd (GCTraceCPUTime_ctor True None (None :: (int \<times> int \<times> int) option)))"
    by (simp add: ctor_calls)
  show ?thesis
    using h invalid_start_read_deactivates [OF h, where P = fixed_platform
        and ?secs1.0 = "Some (12500000, 3250000, 1120000)"]
    by simp
qed

text \<open>
  Claim C5. When the constructor read the times \<open>(r0, u0, s0)\<close> (real, user, system) from
  the OS clock and the destructor reads \<open>(r1, u1, s1)\<close>, the destructor reads the clock
  once, issues one \<^verbatim>\<open>log_info\<close> statement with the text
  \<^verbatim>\<open>User=%3.2fs Sys=%3.2fs Real=%3.2fs\<close> of \<open>u1 - u0\<close>, \<open>s1 - s0\<close>, \<open>r1 - r0\<close>, and, when the
  tracer is not null, reports the same three differences to it, in that order. The
  subtraction is that of \<^verbatim>\<open>double\<close>. Where the conversion \<^verbatim>\<open>%.2f\<close> never prints fewer than
  three characters, as in the C library, the width 3 adds nothing and the text is that
  of \<^verbatim>\<open>User=%.2fs Sys=%.2fs Real=%.2fs\<close>.
\<close>

theorem cpu_time_deltas_logged_and_reported:
  fixes P :: "('c, 'd::{zero, minus}) platform"
  assumes "GetTimesSecs (Some (r0, u0, s0)) \<in> set (snd (GCTraceCPUTime_ctor log_enabled trc secs0))"
  shows "GCTraceCPUTime_dtor P (fst (GCTraceCPUTime_ctor log_enabled trc secs0)) (Some (r1, u1, s1)) =
       [GetTimesSecs (Some (r1, u1, s1)),
        Log_info (''User='' @ printf_f P 3 2 (u1 - u0) @ ''s Sys='' @ printf_f P 3 2 (s1 - s0)
                  @ ''s Real='' @ printf_f P 3 2 (r1 - r0) @ ''s'')]
       @ (case trc of Some t \<Rightarrow> [Report (u1 - u0) (s1 - s0) (r1 - r0)] | None \<Rightarrow> [])
    \<and> length (filter is_log_info
         (GCTraceCPUTime_dtor P (fst (GCTraceCPUTime_ctor log_enabled trc secs0)) (Some (r1, u1, s1)))) = 1
    \<and> ((\<forall>x. 3 \<le> length (format_f P 2 x)) \<longrightarrow>
         GCTraceCPUTime_dtor P (fst (GCTraceCPUTime_ctor log_enabled trc secs0)) (Some (r1, u1, s1)) ! 1 =
           Log_info (''User='' @ format_f P 2 (u1 - u0) @ ''s Sys='' @ format_f P 2 (s1 - s0)
                     @ ''s Real='' @ format_f P 2 (r1 - r0) @ ''s''))"
proof -
  from assms have s: "secs0 = Some (r0, u0, s0)"
    and a: "log_enabled \<or> (\<exists>t. trc = Some t \<and> should_report_cpu_time_event t)"
    by (cases secs0; auto simp: ctor_calls split: if_splits option.splits)+
  have d: "GCTraceCPUTime_dtor P (fst (GCTraceCPUTime_ctor log_enabled trc secs0)) (Some (r1, u1, s1)) =
       [GetTimesSecs (Some (r1, u1, s1)),
        Log_info (''User='' @ printf_f P 3 2 (u1 - u0) @ ''s Sys='' @ printf_f P 3 2 (s1 - s0)
                  @ ''s Real='' @ printf_f P 3 2 (r1 - r0) @ ''s'')]
       @ (case trc of Some t \<Rightarrow> [Report (u1 - u0) (s1 - s0) (r1 - r0)] | None \<Rightarrow> [])"
    using a by (cases trc) (auto simp: s ctor_self GCTraceCPUTime_dtor_def Let_def)
  show ?thesis
    unfolding d by (cases trc) (simp_all add: is_log_info_def printf_f_wide)
qed

text \<open>
  Ten seconds of real, two of user and one of system time at the start; 12.5, 3.25 and
  1.12 at the end; logging off and a tracer that asks for the event.
\<close>

theorem cpu_time_deltas_logged_and_reported_witness:
  "GetTimesSecs (Some (10000000, 2000000, 1000000))
     \<in> set (snd (GCTraceCPUTime_ctor False (Some (GCTracer True))
          (Some (10000000, 2000000, 1000000 :: int))))
   \<and> (\<forall>x. 3 \<le> length (format_f fixed_platform 2 x))
   \<and> GCTraceCPUTime_dtor fixed_platform
         (fst (GCTraceCPUTime_ctor False (Some (GCTracer True))
            (Some (10000000, 2000000, 1000000 :: int))))
         (Some (12500000, 3250000, 1120000)) =
       [GetTimesSecs (Some (12500000, 3250000, 1120000)),
        Log_info ''User=1.25s Sys=0.12s Real=2.50s'',
        Report 1250000 120000 2500000]"
proof -
  have h: "GetTimesSecs (Some (10000000, 2000000, 1000000))
     \<in> set (snd (GCTraceCPUTime_ctor False (Some (GCTracer True))
          (Some (10000000, 2000000, 1000000 :: int))))"
    by (simp add: ctor_calls)
  have "3 \<le> length (fixed_format 2 x)" for x
    using length_fixed_format [of 2 x] by simp
  then have l: "\<forall>x. 3 \<le> length (format_f fixed_platform 2 x)"
    by (simp add: fixed_platform_def)
  have e: "fixed_format 2 1250000 = ''1.25''" "fixed_format 2 120000 = ''0.12''"
    "fixed_format 2 2500000 = ''2.50''"
    by (simp_all add: fixed_format_def zero_pad_def decimal.simps digit_def)
  have p: "printf_f fixed_platform 3 2 x = fixed_format 2 x" for x
    using l by (simp add: printf_f_wide) (simp add: fixed_platform_def)
  show ?thesis
    using h l cpu_time_deltas_logged_and_reported [OF h, where P = fixed_platform
        and ?r1.0 = 12500000 and ?u1.0 = 3250000 and ?s1.0 = 1120000]
    by (simp add: p e)
qed

end
